theory Spec2Isabelle
  imports Complex_Main "HOL-Library.Sublist"
begin

section \<open>Python values\<close>

text \<open>
  A Python \<open>str\<close> is a sequence of Unicode code points: slicing and \<open>len\<close> count code
  points, and the bot's texts are mostly Chinese. A string is therefore a list of code
  points; \<open>lit\<close> embeds an ASCII literal.
\<close>

type_synonym pystr = "nat list"

definition lit :: "string \<Rightarrow> pystr" where
  "lit s = map of_char s"

text \<open>Python's \<open>sub in s\<close> on strings: \<open>sub\<close> occurs in \<open>s\<close> as a contiguous block.\<close>

fun str_contains :: "pystr \<Rightarrow> pystr \<Rightarrow> bool" where
  "str_contains sub [] = (sub = [])"
| "str_contains sub (c # s) = (prefix sub (c # s) \<or> str_contains sub s)"

text \<open>The exceptions that the modelled code can meet; \<open>Raised m\<close> is any other exception
  (a transport failure, a body that is not JSON) whose \<open>str\<close> is \<open>m\<close>.\<close>

datatype exn = KeyError pystr | IndexError | ValueError | JSONDecodeError | Raised pystr


section \<open>bot.py: the saved lists and their file\<close>

text \<open>
  \<open>user_saved_lists\<close> maps the stringified user id to the list of saved entries, each
  a dict with the keys \<open>name\<close>, \<open>map_link\<close> and \<open>rating\<close>. Only restaurants that
  went through \<open>RestaurantView.__init__\<close> (which slices \<open>r['name'][:10]\<close>) get a button,
  so the name of a saved entry is a string.
\<close>

record saved_entry =
  e_name :: pystr
  e_map_link :: pystr
  e_rating :: pystr

type_synonym saved_lists = "pystr \<rightharpoonup> saved_entry list"

text \<open>
  The state of the bot that the list commands touch: the global dict and the content of
  \<open>DATA_FILE\<close> (\<open>None\<close> while the file does not exist). The JSON codec of the standard
  library is a parameter: \<open>json_dump\<close> renders the dict as file content, \<open>json_load\<close>
  parses file content or raises.
\<close>

record 'f bot_state =
  user_saved_lists :: saved_lists
  data_file :: "'f option"

record 'f codec =
  json_dump :: "saved_lists \<Rightarrow> 'f"
  json_load :: "'f \<Rightarrow> exn + saved_lists"


text \<open>\<open>save_data\<close>: opens the file for writing and dumps the whole dict.\<close>

definition save_data :: "'f codec \<Rightarrow> 'f bot_state \<Rightarrow> 'f bot_state" where
  "save_data cd st = st\<lparr>data_file := Some (json_dump cd (user_saved_lists st))\<rparr>"

text \<open>The two messages of the button callback.\<close>

datatype add_reply = AlreadyInList pystr | AddedToList pystr

text \<open>The button callback of \<open>RestaurantView\<close>, for the user \<open>user_id\<close> and the captured
  \<open>restaurant\<close> (the three keys the callback reads).\<close>

definition callback ::
  "'f codec \<Rightarrow> pystr \<Rightarrow> saved_entry \<Rightarrow> 'f bot_state \<Rightarrow> add_reply \<times> 'f bot_state" where
  "callback cd user_id restaurant st =
     (let d = (case user_saved_lists st user_id of
                     None \<Rightarrow> (user_saved_lists st)(user_id \<mapsto> [])
                   | Some _ \<Rightarrow> user_saved_lists st);
          mine = (case d user_id of None \<Rightarrow> [] | Some es \<Rightarrow> es);
          st1 = st\<lparr>user_saved_lists := d\<rparr>
      in if list_ex (\<lambda>saved. e_name saved = e_name restaurant) mine
         then (AlreadyInList (e_name restaurant), st1)
         else (AddedToList (e_name restaurant),
               save_data cd (st1\<lparr>user_saved_lists := d(user_id \<mapsto>
                  mine @ [\<lparr>e_name = e_name restaurant,
                           e_map_link = e_map_link restaurant,
                           e_rating = e_rating restaurant\<rparr>])\<rparr>)))"

text \<open>The three messages of \<open>/delete\<close>.\<close>

datatype delete_reply = ListIsEmpty | RemovedFromList pystr | NotFoundInList pystr

text \<open>The search loop of \<open>delete_saved\<close>: the first item whose name contains the text.\<close>

fun find_to_remove :: "pystr \<Rightarrow> saved_entry list \<Rightarrow> saved_entry option" where
  "find_to_remove sub [] = None"
| "find_to_remove sub (item # rest) =
     (if str_contains sub (e_name item) then Some item else find_to_remove sub rest)"

text \<open>\<open>delete_saved\<close>; \<open>list.remove\<close> deletes the first element equal to its argument,
  which is \<open>remove1\<close>.\<close>

definition delete_saved ::
  "'f codec \<Rightarrow> pystr \<Rightarrow> pystr \<Rightarrow> 'f bot_state \<Rightarrow> delete_reply \<times> 'f bot_state" where
  "delete_saved cd user_id sub st =
     (let saved = (case user_saved_lists st user_id of None \<Rightarrow> [] | Some es \<Rightarrow> es)
      in if saved = [] then (ListIsEmpty, st)
         else (case find_to_remove sub saved of
                 Some to_remove \<Rightarrow>
                   (RemovedFromList (e_name to_remove),
                    save_data cd (st\<lparr>user_saved_lists :=
                       (user_saved_lists st)(user_id \<mapsto> remove1 to_remove saved)\<rparr>))
               | None \<Rightarrow> (NotFoundInList sub, st)))"

text \<open>Sequences of list commands, and the invariant of the saved lists.\<close>

datatype list_op = Add pystr saved_entry | Remove pystr pystr

fun apply_list_op :: "'f codec \<Rightarrow> list_op \<Rightarrow> 'f bot_state \<Rightarrow> 'f bot_state" where
  "apply_list_op cd (Add user_id restaurant) st = snd (callback cd user_id restaurant st)"
| "apply_list_op cd (Remove user_id sub) st = snd (delete_saved cd user_id sub st)"

fun run_list_ops :: "'f codec \<Rightarrow> list_op list \<Rightarrow> 'f bot_state \<Rightarrow> 'f bot_state" where
  "run_list_ops cd [] st = st"
| "run_list_ops cd (x # xs) st = run_list_ops cd xs (apply_list_op cd x st)"

definition unique_names :: "saved_lists \<Rightarrow> bool" where
  "unique_names d = (\<forall>user_id es. d user_id = Some es \<longrightarrow> distinct (map e_name es))"

section \<open>bot.py: the conversation context of \<open>/eat\<close>\<close>






section \<open>food_tool.py: the upstream services\<close>

text \<open>
  Each call of \<open>requests.get(...).json()\<close> either raises (\<open>Inl\<close>) or gives the parsed
  body. The bodies are modelled as far as the code reads them; a key that the code
  reads with \<open>.get\<close> is an option. A body without \<open>status\<close> behaves in all four
  calls like one whose status is not \<open>OK\<close>, so the status is always present here.
\<close>

record geo_response =
  geo_status :: pystr
  geo_results :: "(rat \<times> rat) list"  \<comment> \<open>\<open>results[i].geometry.location\<close>: lat, lng\<close>

record element =
  el_status :: pystr
  el_duration :: "(pystr \<times> int) option"  \<comment> \<open>\<open>duration.text\<close>, \<open>duration.value\<close>\<close>

record matrix_response =
  dm_status :: pystr
  dm_rows :: "element list option list option"  \<comment> \<open>\<open>rows[i].elements\<close>\<close>

record place =
  p_place_id :: "pystr option"
  p_name :: "pystr option"
  p_rating :: "rat option"
  p_user_ratings_total :: "int option"
  p_formatted_address :: "pystr option"
  p_travel_time_text :: "pystr option"  \<comment> \<open>the key that \<open>find_food\<close> adds\<close>

record search_response =
  sr_status :: pystr
  sr_results :: "place list option"

record review =
  rv_text :: "pystr option"

record details_result =
  res_opening_hours :: "pystr list option option"  \<comment> \<open>\<open>opening_hours.weekday_text\<close>\<close>
  res_editorial_summary :: "pystr option option"  \<comment> \<open>\<open>editorial_summary.overview\<close>\<close>
  res_reviews :: "review list option"

record details_response =
  dr_status :: pystr
  dr_result :: "details_result option"

text \<open>What \<open>get_place_details\<close> returns, and one element of \<open>output_data\<close>.\<close>

record place_info =
  opening_hours :: "pystr list"
  reviews_summary :: pystr
  editorial_summary :: pystr

record restaurant =
  r_name :: "pystr option"
  r_rating :: pystr
  r_travel_time :: "pystr option"
  r_address :: "pystr option"
  r_map_link :: pystr
  r_details_data :: place_info

record travel =
  t_text :: pystr
  t_minutes :: int

text \<open>
  Everything outside \<open>find_food\<close> that it depends on: the API key, the four services,
  the draws of the random generator (\<open>draws i\<close> is reduced modulo the bound of the
  \<open>i\<close>-th draw), and the two renderings of the standard library, \<open>str\<close> of a JSON
  number and \<open>json.dumps\<close> of the output list.
\<close>

record world =
  GOOGLE_API_KEY :: pystr
  geocode :: "pystr \<Rightarrow> exn + geo_response"
  textsearch :: "pystr \<Rightarrow> rat \<Rightarrow> rat \<Rightarrow> exn + search_response"
  distancematrix :: "rat \<Rightarrow> rat \<Rightarrow> pystr list \<Rightarrow> exn + matrix_response"
  place_details :: "pystr \<Rightarrow> exn + details_response"
  draws :: "nat \<Rightarrow> nat"
  str_number :: "rat \<Rightarrow> pystr"
  json_dumps :: "restaurant list \<Rightarrow> pystr"

type_synonym outcome = "pystr \<times> pystr list \<times> restaurant list"


section \<open>food_tool.py: texts\<close>

definition OK :: pystr where
  "OK = lit ''OK''"

function str_nat :: "nat \<Rightarrow> pystr" where
  "str_nat n = (if n < 10 then [48 + n] else str_nat (n div 10) @ [48 + n mod 10])"
  by pat_completeness auto
termination
  by (relation "measure id") auto

declare str_nat.simps [simp del]

definition str_int :: "int \<Rightarrow> pystr" where
  "str_int i = (if i < 0 then 45 # str_nat (nat (- i)) else str_nat (nat i))"

text \<open>\<open>str(e)\<close>: a \<open>KeyError\<close> prints the \<open>repr\<close> of its key; the other texts are those
  of CPython.\<close>

fun str_exn :: "exn \<Rightarrow> pystr" where
  "str_exn (KeyError k) = [39] @ k @ [39]"
| "str_exn IndexError = lit ''list index out of range''"
| "str_exn ValueError = lit ''Sample larger than population or is negative''"
| "str_exn JSONDecodeError = lit ''Expecting value: line 1 column 1 (char 0)''"
| "str_exn (Raised m) = m"

text \<open>\<open>sep.join(xs)\<close>.\<close>

fun str_join :: "pystr \<Rightarrow> pystr list \<Rightarrow> pystr" where
  "str_join sep [] = []"
| "str_join sep [x] = x"
| "str_join sep (x # y # ys) = x @ sep @ str_join sep (y # ys)"

definition no_review_data :: pystr where
  "no_review_data = [0x7121, 0x8A55, 0x8AD6, 0x8CC7, 0x6599]"

definition msg_api_key_missing :: pystr where
  "msg_api_key_missing = lit ''Error: API Key missing.''"

definition msg_cannot_find_location :: "pystr \<Rightarrow> pystr" where
  "msg_cannot_find_location location =
     lit ''Error: Cannot find location '' @ [39] @ location @ [39] @ lit ''.''"

definition msg_no_results :: pystr where
  "msg_no_results = lit ''No results found.''"

definition msg_already_recommended :: "pystr \<Rightarrow> pystr" where
  "msg_already_recommended keyword =
     [0x9644, 0x8FD1, 0x7684, 0x300C] @ keyword @
     [0x300D, 0x90FD, 0x5DF2, 0x7D93, 0x63A8, 0x85A6, 0x904E, 0x56C9, 0xFF01, 0x8A66, 0x8A66,
      0x770B, 0x63DB, 0x500B, 0x95DC, 0x9375, 0x5B57, 0x6216, 0x5730, 0x9EDE, 0x5427, 0x3002]"

definition msg_no_places :: pystr where
  "msg_no_places = lit ''No places found matching criteria.''"

definition msg_none_within :: "int \<Rightarrow> pystr" where
  "msg_none_within max_travel_time =
     lit ''Found places, but none are within '' @ str_int max_travel_time @ lit '' mins.''"

definition msg_error :: "exn \<Rightarrow> pystr" where
  "msg_error e = lit ''Error: '' @ str_exn e"

definition prompt_instructions :: pystr where
  "prompt_instructions =
     [10, 10] @ lit ''Instruction for AI (Reply in Traditional Chinese):'' @ [10] @
     lit ''1. **Contextual Response**: If the user mentioned a specific situation (e.g., '' @
     [34] @ lit ''It'' @ [39] @ lit ''s cold'' @ [34] @
     lit ''), start or end by explaining why these restaurants fit that situation.'' @ [10] @
     lit ''2. **List the restaurants** using this EXACT format:'' @ [10, 10] @
     lit ''[Emoji Number] **[Restaurant Name]**'' @ [10, 0x8A55, 0x5206, 0xFF1A] @
     lit ''[Rating]'' @ [10, 0x8ECA, 0x7A0B, 0xFF1A] @ lit ''[Travel Time]'' @
     [10, 0x5730, 0x5716, 0xFF1A] @ lit ''[Link]'' @
     [10, 0x71DF, 0x696D, 0x6642, 0x9593, 0xFF1A] @ lit ''[Summarize opening hours]'' @
     [10, 0x63A8, 0x85A6, 0x83DC, 0x54C1, 10] @ lit ''  '' @ [0x2022] @ lit '' [Dish 1] '' @
     [0x2013] @ lit '' [Brief description based on reviews]'' @ [10] @ lit ''  '' @ [0x2022] @
     lit '' [Dish 2] '' @ [0x2013] @ lit '' [Description based on reviews]'' @ [10, 10] @
     lit ''3. **Analyze & Recommend Dishes**: Extract specific dishes from '' @ [96] @
     lit ''reviews_summary'' @ [96] @ lit ''.'' @ [10] @
     lit ''4. Keep the tone friendly and helpful.'' @ [10]"

definition prompt :: "world \<Rightarrow> pystr \<Rightarrow> int \<Rightarrow> pystr \<Rightarrow> restaurant list \<Rightarrow> pystr" where
  "prompt w keyword max_travel_time location output_data =
     [10] @ lit ''The user is looking for '' @ [34] @ keyword @ [34] @ lit '' within '' @
     str_int max_travel_time @ lit '' mins from '' @ [34] @ location @ [34] @ lit ''.'' @ [10] @
     lit ''Here are the selected restaurants with reviews data:'' @ [10, 10] @
     json_dumps w output_data @ prompt_instructions"

section \<open>food_tool.py: the three helpers\<close>

text \<open>
  \<open>get_coordinates\<close> returns \<open>(None, None)\<close> (here \<open>None\<close>) or \<open>(lat, lng)\<close>. An empty
  \<open>results\<close> list under status \<open>OK\<close> raises \<open>IndexError\<close> inside the \<open>try\<close>.
\<close>

definition get_coordinates :: "world \<Rightarrow> pystr \<Rightarrow> (rat \<times> rat) option" where
  "get_coordinates w location_name =
     (if location_name = [] then None
      else (case geocode w location_name of
              Inl e \<Rightarrow> None
            | Inr res \<Rightarrow>
                if geo_status res = OK
                then (case geo_results res of [] \<Rightarrow> None | loc # _ \<Rightarrow> Some loc)
                else None))"

text \<open>
  \<open>math.ceil(value / 60)\<close>. The quotient is taken exactly; the double that Python
  computes has the same ceiling for every duration below \<open>2^47\<close> minutes.
\<close>

definition minutes_of :: "int \<Rightarrow> int" where
  "minutes_of v = \<lceil>(of_int v :: rat) / 60\<rceil>"

text \<open>The \<open>enumerate\<close> loop of \<open>calculate_travel_times\<close>, from index \<open>i\<close> on. The right
  side of the assignment is evaluated before the subscript \<open>destinations[i]\<close>.\<close>

fun travel_loop ::
  "pystr list \<Rightarrow> nat \<Rightarrow> element list \<Rightarrow> (pystr \<rightharpoonup> travel) \<Rightarrow> exn + (pystr \<rightharpoonup> travel)" where
  "travel_loop destinations i [] travel_data = Inr travel_data"
| "travel_loop destinations i (element # rest) travel_data =
     (if el_status element = OK
      then (case el_duration element of
              None \<Rightarrow> Inl (KeyError (lit ''duration''))
            | Some (text, v) \<Rightarrow>
                if i < length destinations
                then travel_loop destinations (Suc i) rest
                       (travel_data(destinations ! i \<mapsto> \<lparr>t_text = text, t_minutes = minutes_of v\<rparr>))
                else Inl IndexError)
      else travel_loop destinations (Suc i) rest travel_data)"

definition calculate_travel_times ::
  "world \<Rightarrow> rat \<Rightarrow> rat \<Rightarrow> pystr list \<Rightarrow> (pystr \<rightharpoonup> travel)" where
  "calculate_travel_times w origin_lat origin_lng destinations =
     (if destinations = [] then Map.empty
      else (case distancematrix w origin_lat origin_lng destinations of
              Inl e \<Rightarrow> Map.empty
            | Inr res \<Rightarrow>
                if dm_status res \<noteq> OK then Map.empty
                else (case dm_rows res of
                        None \<Rightarrow> Map.empty
                      | Some [] \<Rightarrow> Map.empty
                      | Some (None # _) \<Rightarrow> Map.empty
                      | Some (Some elements # _) \<Rightarrow>
                          (case travel_loop destinations 0 elements Map.empty of
                             Inl e \<Rightarrow> Map.empty
                           | Inr travel_data \<Rightarrow> travel_data))))"

text \<open>\<open>get_place_details\<close>: \<open>info\<close> starts as the default and is filled in only under
  status \<open>OK\<close>; a review without \<open>text\<close> counts as the empty string.\<close>

definition default_info :: place_info where
  "default_info = \<lparr>opening_hours = [], reviews_summary = no_review_data, editorial_summary = []\<rparr>"

definition get_place_details :: "world \<Rightarrow> pystr \<Rightarrow> place_info" where
  "get_place_details w place_id =
     (case place_details w place_id of
        Inl e \<Rightarrow> default_info
      | Inr res \<Rightarrow>
          if dr_status res = OK
          then (let result = (case dr_result res of
                                None \<Rightarrow> \<lparr>res_opening_hours = None, res_editorial_summary = None,
                                          res_reviews = None\<rparr>
                              | Some r \<Rightarrow> r);
                    info1 = default_info\<lparr>opening_hours :=
                      (case res_opening_hours result of
                         None \<Rightarrow> [] | Some None \<Rightarrow> [] | Some (Some weekday_text) \<Rightarrow> weekday_text)\<rparr>;
                    info2 = info1\<lparr>editorial_summary :=
                      (case res_editorial_summary result of
                         None \<Rightarrow> [] | Some None \<Rightarrow> [] | Some (Some overview) \<Rightarrow> overview)\<rparr>;
                    reviews = (case res_reviews result of None \<Rightarrow> [] | Some rs \<Rightarrow> rs)
                in if reviews \<noteq> []
                   then info2\<lparr>reviews_summary :=
                     take 1500 (str_join (lit '' | '')
                       (map (\<lambda>r. case rv_text r of None \<Rightarrow> [] | Some t \<Rightarrow> t) reviews))\<rparr>
                   else info2)
          else default_info)"


text \<open>\<open>get_place_details\<close> of webui_tool.py, the older copy of the tool: the same code
  with the cut at 1000.\<close>

definition webui_get_place_details :: "world \<Rightarrow> pystr \<Rightarrow> place_info" where
  "webui_get_place_details w place_id =
     (case place_details w place_id of
        Inl e \<Rightarrow> default_info
      | Inr res \<Rightarrow>
          if dr_status res = OK
          then (let result = (case dr_result res of
                                None \<Rightarrow> \<lparr>res_opening_hours = None, res_editorial_summary = None,
                                          res_reviews = None\<rparr>
                              | Some r \<Rightarrow> r);
                    info1 = default_info\<lparr>opening_hours :=
                      (case res_opening_hours result of
                         None \<Rightarrow> [] | Some None \<Rightarrow> [] | Some (Some weekday_text) \<Rightarrow> weekday_text)\<rparr>;
                    info2 = info1\<lparr>editorial_summary :=
                      (case res_editorial_summary result of
                         None \<Rightarrow> [] | Some None \<Rightarrow> [] | Some (Some overview) \<Rightarrow> overview)\<rparr>;
                    reviews = (case res_reviews result of None \<Rightarrow> [] | Some rs \<Rightarrow> rs)
                in if reviews \<noteq> []
                   then info2\<lparr>reviews_summary :=
                     take 1000 (str_join (lit '' | '')
                       (map (\<lambda>r. case rv_text r of None \<Rightarrow> [] | Some t \<Rightarrow> t) reviews))\<rparr>
                   else info2)
          else default_info)"


section \<open>food_tool.py: \<open>find_food\<close>\<close>

text \<open>
  \<open>random.sample(population, k)\<close> of CPython for a population of at most 21 elements
  (here at most 15): \<open>k\<close> times, draw an index below the number of remaining elements,
  take the element there and move the last remaining element into its place.
\<close>

fun sample_loop :: "(nat \<Rightarrow> nat) \<Rightarrow> nat \<Rightarrow> 'a list \<Rightarrow> nat \<Rightarrow> 'a list" where
  "sample_loop rnd i pool 0 = []"
| "sample_loop rnd i pool (Suc k) =
     (let j = rnd i mod length pool
      in pool ! j # sample_loop rnd (Suc i) (butlast (pool[j := last pool])) k)"

definition random_sample :: "(nat \<Rightarrow> nat) \<Rightarrow> 'a list \<Rightarrow> nat \<Rightarrow> exn + 'a list" where
  "random_sample rnd population k =
     (if length population < k then Inl ValueError
      else Inr (sample_loop rnd 0 population k))"

text \<open>The comprehension \<open>[p["place_id"] for p in ps]\<close>: a place without the key raises.\<close>

fun place_ids :: "place list \<Rightarrow> exn + pystr list" where
  "place_ids [] = Inr []"
| "place_ids (p # ps) =
     (case p_place_id p of
        None \<Rightarrow> Inl (KeyError (lit ''place_id''))
      | Some pid \<Rightarrow> (case place_ids ps of Inl e \<Rightarrow> Inl e | Inr pids \<Rightarrow> Inr (pid # pids)))"

text \<open>The filter of lines 132 to 137; an absent rating or review count is 0, an absent
  place id is \<open>None\<close>, which is in no list of strings.\<close>

definition is_candidate :: "rat \<Rightarrow> int \<Rightarrow> pystr list \<Rightarrow> place \<Rightarrow> bool" where
  "is_candidate min_rating min_reviews exclude_ids p =
     ((case p_rating p of None \<Rightarrow> 0 | Some r \<Rightarrow> r) \<ge> min_rating
      \<and> (case p_user_ratings_total p of None \<Rightarrow> 0 | Some n \<Rightarrow> n) \<ge> min_reviews
      \<and> (case p_place_id p of None \<Rightarrow> True | Some pid \<Rightarrow> pid \<notin> set exclude_ids))"

text \<open>The loop of lines 149 to 154.\<close>

fun final_loop :: "(pystr \<rightharpoonup> travel) \<Rightarrow> int \<Rightarrow> place list \<Rightarrow> exn + place list" where
  "final_loop travel_info max_travel_time [] = Inr []"
| "final_loop travel_info max_travel_time (p # ps) =
     (case p_place_id p of
        None \<Rightarrow> Inl (KeyError (lit ''place_id''))
      | Some pid \<Rightarrow>
          (case final_loop travel_info max_travel_time ps of
             Inl e \<Rightarrow> Inl e
           | Inr final_list \<Rightarrow>
               (case travel_info pid of
                  None \<Rightarrow> Inr final_list
                | Some t \<Rightarrow>
                    if t_minutes t \<le> max_travel_time
                    then Inr (p\<lparr>p_travel_time_text := Some (t_text t)\<rparr> # final_list)
                    else Inr final_list)))"

text \<open>The loop of lines 163 to 173, one \<open>get_place_details\<close> call per selected place.\<close>

definition str_opt :: "('a \<Rightarrow> pystr) \<Rightarrow> 'a option \<Rightarrow> pystr" where
  "str_opt f x = (case x of None \<Rightarrow> lit ''None'' | Some v \<Rightarrow> f v)"

fun output_loop :: "world \<Rightarrow> place list \<Rightarrow> exn + restaurant list" where
  "output_loop w [] = Inr []"
| "output_loop w (p # ps) =
     (case p_place_id p of
        None \<Rightarrow> Inl (KeyError (lit ''place_id''))
      | Some pid \<Rightarrow>
          (let details = get_place_details w pid;
               r = \<lparr>r_name = p_name p,
                    r_rating = str_opt (str_number w) (p_rating p) @ lit '' ('' @
                               str_opt str_int (p_user_ratings_total p) @ lit '' reviews)'',
                    r_travel_time = p_travel_time_text p,
                    r_address = p_formatted_address p,
                    r_map_link = lit ''https://www.google.com/maps/place/?q=place_id:'' @ pid,
                    r_details_data = details\<rparr>
           in (case output_loop w ps of Inl e \<Rightarrow> Inl e | Inr rs \<Rightarrow> Inr (r # rs))))"

text \<open>Lines 159 to 197: sampling, formatting and the prompt.\<close>

definition select_and_format ::
  "world \<Rightarrow> pystr \<Rightarrow> pystr \<Rightarrow> int \<Rightarrow> place list \<Rightarrow> exn + outcome" where
  "select_and_format w keyword location max_travel_time final_list =
     (case random_sample (draws w) final_list (min 3 (length final_list)) of
        Inl e \<Rightarrow> Inl e
      | Inr selected \<Rightarrow>
          (case place_ids selected of
             Inl e \<Rightarrow> Inl e
           | Inr selected_ids \<Rightarrow>
               (case output_loop w selected of
                  Inl e \<Rightarrow> Inl e
                | Inr output_data \<Rightarrow>
                    Inr (prompt w keyword max_travel_time location output_data,
                         selected_ids, output_data))))"

text \<open>Lines 145 to 154: the first 15 candidates and their travel times.\<close>

definition travel_filter ::
  "world \<Rightarrow> rat \<Rightarrow> rat \<Rightarrow> int \<Rightarrow> place list \<Rightarrow> exn + place list" where
  "travel_filter w origin_lat origin_lng max_travel_time candidates =
     (let top_candidates = take 15 candidates
      in (case place_ids top_candidates of
            Inl e \<Rightarrow> Inl e
          | Inr candidate_ids \<Rightarrow>
              final_loop (calculate_travel_times w origin_lat origin_lng candidate_ids)
                max_travel_time top_candidates))"

text \<open>The body of the \<open>try\<close> of \<open>find_food\<close> after the search call has returned \<open>res\<close>.\<close>

definition after_search ::
  "world \<Rightarrow> pystr \<Rightarrow> pystr \<Rightarrow> int \<Rightarrow> rat \<Rightarrow> int \<Rightarrow> pystr list \<Rightarrow> rat \<Rightarrow> rat \<Rightarrow>
     search_response \<Rightarrow> exn + outcome" where
  "after_search w keyword location max_travel_time min_rating min_reviews exclude_ids
       origin_lat origin_lng res =
     (if sr_status res \<noteq> OK then Inr (msg_no_results, [], [])
      else (let results = (case sr_results res of None \<Rightarrow> [] | Some ps \<Rightarrow> ps);
                candidates = filter (is_candidate min_rating min_reviews exclude_ids) results
            in if candidates = []
               then (if results \<noteq> [] \<and> length exclude_ids > 0
                     then Inr (msg_already_recommended keyword, [], [])
                     else Inr (msg_no_places, [], []))
               else (case travel_filter w origin_lat origin_lng max_travel_time candidates of
                       Inl e \<Rightarrow> Inl e
                     | Inr final_list \<Rightarrow>
                         if final_list = []
                         then Inr (msg_none_within max_travel_time, [], [])
                         else select_and_format w keyword location max_travel_time final_list)))"

text \<open>
  \<open>find_food\<close>. \<open>not origin_lat\<close> holds for \<open>None\<close> and for the number 0. The result is a
  sum so that an exception leaving \<open>find_food\<close> would be a value \<open>Inl\<close>.
\<close>

definition find_food ::
  "world \<Rightarrow> pystr \<Rightarrow> pystr \<Rightarrow> int \<Rightarrow> rat \<Rightarrow> int \<Rightarrow> pystr list option \<Rightarrow> exn + outcome" where
  "find_food w keyword location max_travel_time min_rating min_reviews exclude_ids0 =
     (if GOOGLE_API_KEY w = [] then Inr (msg_api_key_missing, [], [])
      else (let exclude_ids = (case exclude_ids0 of None \<Rightarrow> [] | Some ids \<Rightarrow> ids)
            in (case get_coordinates w location of
                  None \<Rightarrow> Inr (msg_cannot_find_location location, [], [])
                | Some (origin_lat, origin_lng) \<Rightarrow>
                    if origin_lat = 0 then Inr (msg_cannot_find_location location, [], [])
                    else (case (case textsearch w keyword origin_lat origin_lng of
                                  Inl e \<Rightarrow> Inl e
                                | Inr res \<Rightarrow>
                                    after_search w keyword location max_travel_time min_rating
                                      min_reviews exclude_ids origin_lat origin_lng res) of
                            Inl e \<Rightarrow> Inr (msg_error e, [], [])
                          | Inr out \<Rightarrow> Inr out))))"






section \<open>Concrete inputs\<close>

text \<open>A codec whose file content is the dict itself, two saved entries and a state.\<close>

definition demo_codec :: "saved_lists codec" where
  "demo_codec = \<lparr>json_dump = (\<lambda>d. d), json_load = (\<lambda>content. Inr content)\<rparr>"

definition beef_soup :: saved_entry where
  "beef_soup = \<lparr>e_name = [0x725B, 0x8089, 0x6E6F, 0x8001, 0x5E97],
                e_map_link = lit ''https://www.google.com/maps/place/?q=place_id:A'',
                e_rating = lit ''4.5 (120 reviews)''\<rparr>"

definition du_hsiao_yueh :: saved_entry where
  "du_hsiao_yueh = \<lparr>e_name = [0x5EA6, 0x5C0F, 0x6708],
                    e_map_link = lit ''https://www.google.com/maps/place/?q=place_id:B'',
                    e_rating = lit ''4.1 (87 reviews)''\<rparr>"

definition demo_state :: "saved_lists bot_state" where
  "demo_state = \<lparr>user_saved_lists = [lit ''42'' \<mapsto> [beef_soup, du_hsiao_yueh]],
                 data_file = None\<rparr>"




text \<open>
  A world for \<open>find_food\<close>: geocoding and search succeed, the search finds three
  places of which the third is rated below 3.5, every destination is 119 seconds
  away, and every place-details call fails.
\<close>

definition place_a :: place where
  "place_a = \<lparr>p_place_id = Some (lit ''A''),
              p_name = Some [0x725B, 0x8089, 0x6E6F, 0x8001, 0x5E97],
              p_rating = Some 4.5, p_user_ratings_total = Some 120,
              p_formatted_address = Some (lit ''No. 1, University Road''),
              p_travel_time_text = None\<rparr>"

definition place_b :: place where
  "place_b = \<lparr>p_place_id = Some (lit ''B''),
              p_name = Some [0x5EA6, 0x5C0F, 0x6708],
              p_rating = Some 4.1, p_user_ratings_total = Some 87,
              p_formatted_address = Some (lit ''No. 16, Zhongzheng Road''),
              p_travel_time_text = None\<rparr>"

definition place_c :: place where
  "place_c = \<lparr>p_place_id = Some (lit ''C''),
              p_name = Some (lit ''Night Market Stall''),
              p_rating = Some 2, p_user_ratings_total = Some 5,
              p_formatted_address = None,
              p_travel_time_text = None\<rparr>"

definition demo_world :: world where
  "demo_world =
     \<lparr>GOOGLE_API_KEY = lit ''key'',
      geocode = (\<lambda>address. Inr \<lparr>geo_status = OK, geo_results = [(23, 120)]\<rparr>),
      textsearch = (\<lambda>query lat lng.
        Inr \<lparr>sr_status = OK, sr_results = Some [place_a, place_b, place_c]\<rparr>),
      distancematrix = (\<lambda>lat lng destinations.
        Inr \<lparr>dm_status = OK,
             dm_rows = Some [Some (map (\<lambda>d. \<lparr>el_status = OK,
                                              el_duration = Some (lit ''2 mins'', 119)\<rparr>)
                                    destinations)]\<rparr>),
      place_details = (\<lambda>place_id. Inl (Raised (lit ''timed out''))),
      draws = (\<lambda>i. 0),
      str_number = (\<lambda>r. if r = 4.5 then lit ''4.5'' else lit ''4.1''),
      json_dumps = (\<lambda>output_data. lit ''[]'')\<rparr>"









text \<open>Worlds in which one upstream call fails, and one whose search result has no
  \<open>place_id\<close>.\<close>

definition geocode_down :: world where
  "geocode_down = demo_world\<lparr>geocode := (\<lambda>address. Inl (Raised (lit ''timed out'')))\<rparr>"




text \<open>A world whose search finds only the place rated below 3.5.\<close>

definition low_rated_world :: world where
  "low_rated_world = demo_world\<lparr>textsearch := (\<lambda>query lat lng.
     Inr \<lparr>sr_status = OK, sr_results = Some [place_c]\<rparr>)\<rparr>"

text \<open>A world in which the location geocodes to a point on the equator.\<close>

definition equator_world :: world where
  "equator_world = demo_world\<lparr>geocode := (\<lambda>address.
     Inr \<lparr>geo_status = OK, geo_results = [(0, 120)]\<rparr>)\<rparr>"


section \<open>Strings\<close>

lemma str_contains_sublist: "str_contains sub s = sublist sub s"
  by (induction s) (auto simp: sublist_Cons_right)


section \<open>The saved lists and the conversation context\<close>

lemma find_to_remove_first:
  "\<forall>x\<in>set pre. \<not> str_contains sub (e_name x) \<Longrightarrow> str_contains sub (e_name e) \<Longrightarrow>
     find_to_remove sub (pre @ e # post) = Some e"
  by (induction pre) auto

lemma find_to_remove_none:
  "\<forall>x\<in>set saved. \<not> str_contains sub (e_name x) \<Longrightarrow> find_to_remove sub saved = None"
  by (induction saved) auto

lemma find_to_remove_mem: "find_to_remove sub saved = Some e \<Longrightarrow> e \<in> set saved"
  by (induction saved) (auto split: if_splits)

lemma bot_state_same [simp]: "st\<lparr>user_saved_lists := user_saved_lists st\<rparr> = st"
  by simp

lemma callback_unique:
  "unique_names (user_saved_lists st) \<Longrightarrow>
     unique_names (user_saved_lists (snd (callback cd user_id restaurant st)))"
  unfolding unique_names_def callback_def save_data_def Let_def
  by (auto simp: list_ex_iff split: option.splits if_splits)

lemma distinct_names_remove1:
  "distinct (map f xs) \<Longrightarrow> distinct (map f (remove1 x xs))"
proof (induction xs)
  case Nil
  then show ?case by simp
next
  case (Cons y ys)
  have "set (remove1 x ys) \<subseteq> set ys" by (rule set_remove1_subset)
  with Cons show ?case by auto
qed

lemma delete_unique:
  "unique_names (user_saved_lists st) \<Longrightarrow>
     unique_names (user_saved_lists (snd (delete_saved cd user_id sub st)))"
  unfolding unique_names_def delete_saved_def save_data_def Let_def
  by (auto simp: distinct_names_remove1 split: option.splits if_splits)

lemma run_list_ops_unique:
  "unique_names (user_saved_lists st) \<Longrightarrow>
     unique_names (user_saved_lists (run_list_ops cd ops st))"
proof (induction ops arbitrary: st)
  case Nil
  then show ?case by simp
next
  case (Cons x xs)
  have "unique_names (user_saved_lists (apply_list_op cd x st))"
    using Cons.prems by (cases x) (simp_all add: callback_unique delete_unique)
  then show ?case by (simp add: Cons.IH)
qed

text \<open>
  C6. Adding a restaurant whose name is already in the user's list gives the
  already-in-list reply and leaves the state as it was; and when no two entries of a
  user share a name, this still holds after any sequence of additions and deletions,
  in particular after any such sequence that starts from the empty dict.
\<close>

theorem add_idempotent_unique_names:
  "(list_ex (\<lambda>saved. e_name saved = e_name restaurant)
       (case user_saved_lists st user_id of None \<Rightarrow> [] | Some es \<Rightarrow> es)
      \<longrightarrow> callback cd user_id restaurant st = (AlreadyInList (e_name restaurant), st))
   \<and> (unique_names (user_saved_lists st)
      \<longrightarrow> unique_names (user_saved_lists (run_list_ops cd ops st)))
   \<and> unique_names (user_saved_lists (run_list_ops cd ops
        \<lparr>user_saved_lists = Map.empty, data_file = file\<rparr>))"
proof (intro conjI)
  show "list_ex (\<lambda>saved. e_name saved = e_name restaurant)
       (case user_saved_lists st user_id of None \<Rightarrow> [] | Some es \<Rightarrow> es)
      \<longrightarrow> callback cd user_id restaurant st = (AlreadyInList (e_name restaurant), st)"
    by (cases "user_saved_lists st user_id") (simp_all add: callback_def)
  show "unique_names (user_saved_lists st)
      \<longrightarrow> unique_names (user_saved_lists (run_list_ops cd ops st))"
    by (simp add: run_list_ops_unique)
  have "unique_names (user_saved_lists \<lparr>user_saved_lists = Map.empty, data_file = file\<rparr>)"
    by (simp add: unique_names_def)
  then show "unique_names (user_saved_lists (run_list_ops cd ops
        \<lparr>user_saved_lists = Map.empty, data_file = file\<rparr>))"
    by (rule run_list_ops_unique)
qed


theorem add_idempotent_unique_names_witness:
  "callback demo_codec (lit ''42'') beef_soup demo_state
     = (AlreadyInList (e_name beef_soup), demo_state)
   \<and> unique_names (user_saved_lists (run_list_ops demo_codec
        [Add (lit ''42'') beef_soup, Remove (lit ''42'') [0x5C0F], Add (lit ''7'') beef_soup]
        demo_state))"
proof -
  have 1: "list_ex (\<lambda>saved. e_name saved = e_name beef_soup)
       (case user_saved_lists demo_state (lit ''42'') of None \<Rightarrow> [] | Some es \<Rightarrow> es)"
    by (simp add: demo_state_def)
  have 2: "unique_names (user_saved_lists demo_state)"
    by (simp add: unique_names_def demo_state_def beef_soup_def du_hsiao_yueh_def)
  from 1 2 add_idempotent_unique_names
    [of beef_soup demo_state "lit ''42''" demo_codec
        "[Add (lit ''42'') beef_soup, Remove (lit ''42'') [0x5C0F], Add (lit ''7'') beef_soup]"]
  show ?thesis by blast
qed

text \<open>
  C7. \<open>delete_saved\<close> removes exactly the first entry, in list order, whose name contains
  the given text: the entries before and after it stay, in order, and the file is
  rewritten. When no name contains the text nothing changes, and the reply is the
  not-found message (the empty-list message when the user has no entries).
\<close>

theorem delete_saved_first_match:
  "(user_saved_lists st user_id = Some (pre @ e # post)
      \<and> (\<forall>x\<in>set pre. \<not> str_contains sub (e_name x)) \<and> str_contains sub (e_name e)
      \<longrightarrow> delete_saved cd user_id sub st
          = (RemovedFromList (e_name e),
             save_data cd (st\<lparr>user_saved_lists := (user_saved_lists st)(user_id \<mapsto> pre @ post)\<rparr>)))
   \<and> (saved = (case user_saved_lists st user_id of None \<Rightarrow> [] | Some es \<Rightarrow> es)
      \<and> (\<forall>x\<in>set saved. \<not> str_contains sub (e_name x))
      \<longrightarrow> delete_saved cd user_id sub st
          = (if saved = [] then ListIsEmpty else NotFoundInList sub, st))"
proof (intro conjI impI)
  assume a: "user_saved_lists st user_id = Some (pre @ e # post)
      \<and> (\<forall>x\<in>set pre. \<not> str_contains sub (e_name x)) \<and> str_contains sub (e_name e)"
  then have "e \<notin> set pre" by blast
  then have "remove1 e (pre @ e # post) = pre @ post"
    by (simp add: remove1_append)
  moreover have "find_to_remove sub (pre @ e # post) = Some e"
    using a by (simp add: find_to_remove_first)
  ultimately show "delete_saved cd user_id sub st
          = (RemovedFromList (e_name e),
             save_data cd (st\<lparr>user_saved_lists := (user_saved_lists st)(user_id \<mapsto> pre @ post)\<rparr>))"
    using a by (simp add: delete_saved_def)
next
  assume a: "saved = (case user_saved_lists st user_id of None \<Rightarrow> [] | Some es \<Rightarrow> es)
      \<and> (\<forall>x\<in>set saved. \<not> str_contains sub (e_name x))"
  then have "find_to_remove sub saved = None"
    by (simp add: find_to_remove_none)
  then show "delete_saved cd user_id sub st
          = (if saved = [] then ListIsEmpty else NotFoundInList sub, st)"
    using a by (simp add: delete_saved_def)
qed

theorem delete_saved_first_match_witness:
  "delete_saved demo_codec (lit ''42'') [0x725B, 0x8089] demo_state
     = (RemovedFromList [0x725B, 0x8089, 0x6E6F, 0x8001, 0x5E97],
        \<lparr>user_saved_lists = [lit ''42'' \<mapsto> [du_hsiao_yueh]],
         data_file = Some [lit ''42'' \<mapsto> [du_hsiao_yueh]]\<rparr>)
   \<and> delete_saved demo_codec (lit ''42'') [0x6E6F, 0x6E6F] demo_state
     = (NotFoundInList [0x6E6F, 0x6E6F], demo_state)"
proof -
  have 1: "user_saved_lists demo_state (lit ''42'') = Some ([] @ beef_soup # [du_hsiao_yueh])
      \<and> (\<forall>x\<in>set []. \<not> str_contains [0x725B, 0x8089] (e_name x))
      \<and> str_contains [0x725B, 0x8089] (e_name beef_soup)"
    by (simp add: demo_state_def beef_soup_def)
  have 2: "[beef_soup, du_hsiao_yueh]
        = (case user_saved_lists demo_state (lit ''42'') of None \<Rightarrow> [] | Some es \<Rightarrow> es)
      \<and> (\<forall>x\<in>set [beef_soup, du_hsiao_yueh]. \<not> str_contains [0x6E6F, 0x6E6F] (e_name x))"
    by (simp add: demo_state_def beef_soup_def du_hsiao_yueh_def)
  have 3: "save_data demo_codec (demo_state\<lparr>user_saved_lists :=
             (user_saved_lists demo_state)(lit ''42'' \<mapsto> [] @ [du_hsiao_yueh])\<rparr>)
         = \<lparr>user_saved_lists = [lit ''42'' \<mapsto> [du_hsiao_yueh]],
            data_file = Some [lit ''42'' \<mapsto> [du_hsiao_yueh]]\<rparr>"
    by (simp add: save_data_def demo_state_def demo_codec_def)
  from 1 2 3 delete_saved_first_match
    [of demo_state "lit ''42''" "[]" beef_soup "[du_hsiao_yueh]" "[0x725B, 0x8089]"
        demo_codec]
    delete_saved_first_match
    [of demo_state "lit ''42''" "[]" beef_soup "[du_hsiao_yueh]" "[0x6E6F, 0x6E6F]"
        demo_codec "[beef_soup, du_hsiao_yueh]"]
  show ?thesis by (simp add: beef_soup_def)
qed







section \<open>The helpers of \<open>find_food\<close>\<close>


lemma minutes_of_div: "minutes_of v = (v + 59) div 60"
proof -
  have "\<lceil>(of_int v :: rat) / of_int 60\<rceil> = - ((- v) div 60)"
    by (rule ceiling_divide_eq_div)
  then show ?thesis
    by (simp add: minutes_of_def) 
qed




text \<open>
  C10. A geocoding answer with status \<open>OK\<close> whose first result has latitude 0 is a
  successful call (\<open>get_coordinates\<close> returns the coordinates), and \<open>find_food\<close> answers
  it with the message, the empty id list and the empty restaurant list that it gives
  when \<open>get_coordinates\<close> has found nothing.
\<close>

theorem zero_latitude_not_found:
  "(GOOGLE_API_KEY w \<noteq> [] \<and> location \<noteq> [] \<and> geocode w location = Inr res
      \<and> geo_status res = OK \<and> geo_results res = (0, lng) # others
    \<longrightarrow> get_coordinates w location = Some (0, lng)
        \<and> find_food w keyword location max_travel_time min_rating min_reviews exclude_ids
            = Inr (msg_cannot_find_location location, [], []))
   \<and> (GOOGLE_API_KEY w \<noteq> [] \<and> get_coordinates w location = None
    \<longrightarrow> find_food w keyword location max_travel_time min_rating min_reviews exclude_ids
            = Inr (msg_cannot_find_location location, [], []))"
  by (simp add: find_food_def get_coordinates_def)


text \<open>The copy in webui_tool.py returns the same details with the summary cut further.\<close>

lemma webui_get_place_details_cut:
  "webui_get_place_details w place_id
     = (get_place_details w place_id)\<lparr>reviews_summary :=
         take 1000 (reviews_summary (get_place_details w place_id))\<rparr>"
  by (auto simp: webui_get_place_details_def get_place_details_def default_info_def
      no_review_data_def Let_def split: sum.splits)


section \<open>The pipeline\<close>

lemma final_loop_place_ids:
  "final_loop travel_info max_travel_time ps = Inr final_list \<Longrightarrow>
     \<forall>p\<in>set final_list. p_place_id p \<noteq> None"
proof (induction ps arbitrary: final_list)
  case Nil
  then show ?case by simp
next
  case (Cons p ps)
  then show ?case
    by (auto split: option.splits sum.splits if_splits)
qed


lemma travel_filter_place_ids:
  "travel_filter w origin_lat origin_lng max_travel_time candidates = Inr final_list \<Longrightarrow>
     \<forall>p\<in>set final_list. p_place_id p \<noteq> None"
  unfolding travel_filter_def Let_def
  by (auto split: sum.splits dest: final_loop_place_ids)

lemma place_ids_total:
  "\<forall>p\<in>set ps. p_place_id p \<noteq> None \<Longrightarrow>
     \<exists>ids. place_ids ps = Inr ids \<and> length ids = length ps"
  by (induction ps) auto

lemma output_loop_total:
  "\<forall>p\<in>set ps. p_place_id p \<noteq> None \<Longrightarrow>
     \<exists>rs. output_loop w ps = Inr rs \<and> length rs = length ps"
  by (induction ps) (auto simp: Let_def)

lemma sample_loop_length: "length (sample_loop rnd i pool k) = k"
  by (induction k arbitrary: i pool) (simp_all add: Let_def)

lemma sample_loop_subset:
  "k \<le> length pool \<Longrightarrow> set (sample_loop rnd i pool k) \<subseteq> set pool"
proof (induction k arbitrary: i pool)
  case 0
  then show ?case by simp
next
  case (Suc k)
  define j where "j = rnd i mod length pool"
  define pool' where "pool' = butlast (pool[j := last pool])"
  have ne: "pool \<noteq> []" using Suc.prems by auto
  then have j: "j < length pool" by (simp add: j_def)
  have "set pool' \<subseteq> set (pool[j := last pool])"
    unfolding pool'_def by (auto dest: in_set_butlastD)
  also have "\<dots> \<subseteq> insert (last pool) (set pool)"
    by (rule set_update_subset_insert)
  also have "\<dots> = set pool" using ne by auto
  finally have sub: "set pool' \<subseteq> set pool" .
  have "k \<le> length pool'" using Suc.prems by (simp add: pool'_def)
  then have "set (sample_loop rnd (Suc i) pool' k) \<subseteq> set pool'" by (rule Suc.IH)
  with sub j show ?case
    by (auto simp: Let_def j_def [symmetric] pool'_def [symmetric])
qed

lemma select_and_format_total:
  assumes "\<forall>p\<in>set final_list. p_place_id p \<noteq> None"
  shows "\<exists>ids rs. select_and_format w keyword location max_travel_time final_list
                    = Inr (prompt w keyword max_travel_time location rs, ids, rs)
           \<and> length ids = min 3 (length final_list)
           \<and> length rs = min 3 (length final_list)"
proof -
  define k where "k = min 3 (length final_list)"
  define selected where "selected = sample_loop (draws w) 0 final_list k"
  have k: "k \<le> length final_list" by (simp add: k_def)
  then have s: "random_sample (draws w) final_list k = Inr selected"
    by (simp add: random_sample_def selected_def)
  have len: "length selected = k" by (simp add: selected_def sample_loop_length)
  have "set selected \<subseteq> set final_list"
    unfolding selected_def using k by (rule sample_loop_subset)
  with assms have ids: "\<forall>p\<in>set selected. p_place_id p \<noteq> None" by blast
  from place_ids_total [OF ids] obtain selected_ids where
    i: "place_ids selected = Inr selected_ids" "length selected_ids = length selected"
    by blast
  from output_loop_total [OF ids, of w] obtain output_data where
    out: "output_loop w selected = Inr output_data" "length output_data = length selected"
    by blast
  have "select_and_format w keyword location max_travel_time final_list
          = Inr (prompt w keyword max_travel_time location output_data,
                 selected_ids, output_data)"
    using s i(1) out(1) by (simp add: select_and_format_def k_def [symmetric])
  with i(2) out(2) len show ?thesis
    by (simp add: k_def [symmetric])
qed


text \<open>What \<open>find_food\<close> returns once the search call has answered with status \<open>OK\<close>.\<close>

lemma find_food_after_search:
  assumes "GOOGLE_API_KEY w \<noteq> []" "get_coordinates w location = Some (lat, lng)" "lat \<noteq> 0"
  shows "find_food w keyword location max_travel_time min_rating min_reviews exclude_ids =
     (case (case textsearch w keyword lat lng of
              Inl e \<Rightarrow> Inl e
            | Inr res \<Rightarrow>
                after_search w keyword location max_travel_time min_rating min_reviews
                  (case exclude_ids of None \<Rightarrow> [] | Some ids \<Rightarrow> ids) lat lng res) of
        Inl e \<Rightarrow> Inr (msg_error e, [], [])
      | Inr out \<Rightarrow> Inr out)"
  using assms by (simp add: find_food_def)






text \<open>
  C2. When the search has answered with status \<open>OK\<close> and the filter leaves no
  candidate, \<open>find_food\<close> returns the already-recommended message exactly when the raw
  result list and the exclude list are both non-empty, and the no-places message
  otherwise; the two messages differ. In particular an exclude list that covers every
  place of a non-empty result list gives the already-recommended message.
\<close>

theorem no_candidates_message:
  "GOOGLE_API_KEY w \<noteq> [] \<and> get_coordinates w location = Some (lat, lng) \<and> lat \<noteq> 0
     \<and> textsearch w keyword lat lng = Inr res \<and> sr_status res = OK
     \<and> results = (case sr_results res of None \<Rightarrow> [] | Some ps \<Rightarrow> ps)
     \<and> excluded = (case exclude_ids of None \<Rightarrow> [] | Some ids \<Rightarrow> ids)
   \<longrightarrow> (filter (is_candidate min_rating min_reviews excluded) results = []
        \<longrightarrow> find_food w keyword location max_travel_time min_rating min_reviews exclude_ids
              = Inr (if results \<noteq> [] \<and> excluded \<noteq> []
                     then msg_already_recommended keyword else msg_no_places, [], [])
            \<and> msg_already_recommended keyword \<noteq> msg_no_places)
     \<and> (results \<noteq> []
          \<and> (\<forall>p\<in>set results. \<exists>pid. p_place_id p = Some pid \<and> pid \<in> set excluded)
        \<longrightarrow> find_food w keyword location max_travel_time min_rating min_reviews exclude_ids
              = Inr (msg_already_recommended keyword, [], []))"
proof (intro impI)
  assume a: "GOOGLE_API_KEY w \<noteq> [] \<and> get_coordinates w location = Some (lat, lng) \<and> lat \<noteq> 0
     \<and> textsearch w keyword lat lng = Inr res \<and> sr_status res = OK
     \<and> results = (case sr_results res of None \<Rightarrow> [] | Some ps \<Rightarrow> ps)
     \<and> excluded = (case exclude_ids of None \<Rightarrow> [] | Some ids \<Rightarrow> ids)"
  then have f: "find_food w keyword location max_travel_time min_rating min_reviews
      exclude_ids =
     (case after_search w keyword location max_travel_time min_rating min_reviews
             excluded lat lng res of
        Inl e \<Rightarrow> Inr (msg_error e, [], [])
      | Inr out \<Rightarrow> Inr out)"
    by (simp add: find_food_after_search)
  have none: "filter (is_candidate min_rating min_reviews excluded) results = [] \<Longrightarrow>
      after_search w keyword location max_travel_time min_rating min_reviews
             excluded lat lng res
        = Inr (if results \<noteq> [] \<and> excluded \<noteq> []
               then msg_already_recommended keyword else msg_no_places, [], [])"
    using a by (simp add: after_search_def)
  have differ: "msg_already_recommended keyword \<noteq> msg_no_places"
    by (simp add: msg_already_recommended_def msg_no_places_def lit_def)
  have covered: "filter (is_candidate min_rating min_reviews excluded) results = []
      \<and> excluded \<noteq> []"
    if "results \<noteq> []"
      and "\<forall>p\<in>set results. \<exists>pid. p_place_id p = Some pid \<and> pid \<in> set excluded"
  proof
    show "filter (is_candidate min_rating min_reviews excluded) results = []"
      using that(2) by (auto simp: filter_empty_conv is_candidate_def)
    from that obtain p pid where "p \<in> set results" "pid \<in> set excluded"
      by (cases results) auto
    then show "excluded \<noteq> []" by auto
  qed
  show "(filter (is_candidate min_rating min_reviews excluded) results = []
        \<longrightarrow> find_food w keyword location max_travel_time min_rating min_reviews exclude_ids
              = Inr (if results \<noteq> [] \<and> excluded \<noteq> []
                     then msg_already_recommended keyword else msg_no_places, [], [])
            \<and> msg_already_recommended keyword \<noteq> msg_no_places)
     \<and> (results \<noteq> []
          \<and> (\<forall>p\<in>set results. \<exists>pid. p_place_id p = Some pid \<and> pid \<in> set excluded)
        \<longrightarrow> find_food w keyword location max_travel_time min_rating min_reviews exclude_ids
              = Inr (msg_already_recommended keyword, [], []))"
    using f none differ covered by auto
qed

text \<open>
  C5. When the search has answered with status \<open>OK\<close> and the list of candidates that
  survive the travel-time filter is not empty, \<open>find_food\<close> returns the prompt with as
  many ids and as many restaurants as the smaller of 3 and the length of that list:
  never more than 3 and never more than there are eligible candidates.
\<close>

theorem sample_size:
  "GOOGLE_API_KEY w \<noteq> [] \<and> get_coordinates w location = Some (lat, lng) \<and> lat \<noteq> 0
     \<and> textsearch w keyword lat lng = Inr res \<and> sr_status res = OK
     \<and> results = (case sr_results res of None \<Rightarrow> [] | Some ps \<Rightarrow> ps)
     \<and> excluded = (case exclude_ids of None \<Rightarrow> [] | Some ids \<Rightarrow> ids)
     \<and> travel_filter w lat lng max_travel_time
           (filter (is_candidate min_rating min_reviews excluded) results) = Inr final_list
     \<and> final_list \<noteq> []
   \<longrightarrow> (\<exists>ids rs.
          find_food w keyword location max_travel_time min_rating min_reviews exclude_ids
            = Inr (prompt w keyword max_travel_time location rs, ids, rs)
          \<and> length ids = min 3 (length final_list)
          \<and> length rs = min 3 (length final_list)
          \<and> length rs \<le> 3 \<and> length rs \<le> length final_list)"
proof (intro impI)
  assume a: "GOOGLE_API_KEY w \<noteq> [] \<and> get_coordinates w location = Some (lat, lng) \<and> lat \<noteq> 0
     \<and> textsearch w keyword lat lng = Inr res \<and> sr_status res = OK
     \<and> results = (case sr_results res of None \<Rightarrow> [] | Some ps \<Rightarrow> ps)
     \<and> excluded = (case exclude_ids of None \<Rightarrow> [] | Some ids \<Rightarrow> ids)
     \<and> travel_filter w lat lng max_travel_time
           (filter (is_candidate min_rating min_reviews excluded) results) = Inr final_list
     \<and> final_list \<noteq> []"
  define candidates where
    "candidates = filter (is_candidate min_rating min_reviews excluded) results"
  have tf: "travel_filter w lat lng max_travel_time candidates = Inr final_list"
    and ne: "final_list \<noteq> []"
    using a unfolding candidates_def by blast+
  have "travel_filter w lat lng max_travel_time [] = Inr []"
    by (simp add: travel_filter_def)
  with tf ne have cne: "candidates \<noteq> []" by auto
  have f: "find_food w keyword location max_travel_time min_rating min_reviews
      exclude_ids =
     (case after_search w keyword location max_travel_time min_rating min_reviews
             excluded lat lng res of
        Inl e \<Rightarrow> Inr (msg_error e, [], [])
      | Inr out \<Rightarrow> Inr out)"
    using a by (simp add: find_food_after_search)
  have s: "after_search w keyword location max_travel_time min_rating min_reviews
             excluded lat lng res
        = select_and_format w keyword location max_travel_time final_list"
  proof -
    have st: "sr_status res = OK"
      and r: "(case sr_results res of None \<Rightarrow> [] | Some ps \<Rightarrow> ps) = results"
      using a by simp_all
    show ?thesis
      unfolding after_search_def Let_def r candidates_def [symmetric]
      using st tf ne cne by simp
  qed
  from travel_filter_place_ids [OF tf]
  have "\<forall>p\<in>set final_list. p_place_id p \<noteq> None" .
  from select_and_format_total [OF this, of w keyword location max_travel_time]
  obtain ids rs where
    "select_and_format w keyword location max_travel_time final_list
       = Inr (prompt w keyword max_travel_time location rs, ids, rs)"
    "length ids = min 3 (length final_list)" "length rs = min 3 (length final_list)"
    by blast
  with f s show "\<exists>ids rs.
          find_food w keyword location max_travel_time min_rating min_reviews exclude_ids
            = Inr (prompt w keyword max_travel_time location rs, ids, rs)
          \<and> length ids = min 3 (length final_list)
          \<and> length rs = min 3 (length final_list)
          \<and> length rs \<le> 3 \<and> length rs \<le> length final_list"
    by auto
qed


section \<open>The pipeline in a concrete world\<close>


lemma demo_coordinates: "get_coordinates demo_world (lit ''NCKU'') = Some (23, 120)"
  by (simp add: get_coordinates_def demo_world_def lit_def)

lemma demo_candidates:
  "filter (is_candidate 3.5 0 []) [place_a, place_b, place_c] = [place_a, place_b]"
  by (simp add: is_candidate_def place_a_def place_b_def place_c_def)

lemma demo_place_ids: "place_ids [place_a, place_b] = Inr [lit ''A'', lit ''B'']"
  by (simp add: place_a_def place_b_def)

lemma demo_travel_times:
  "calculate_travel_times demo_world 23 120 [lit ''A'', lit ''B'']
     = [lit ''A'' \<mapsto> \<lparr>t_text = lit ''2 mins'', t_minutes = 2\<rparr>,
        lit ''B'' \<mapsto> \<lparr>t_text = lit ''2 mins'', t_minutes = 2\<rparr>]"
  by (simp add: calculate_travel_times_def demo_world_def minutes_of_div)

lemma demo_final_list:
  "travel_filter demo_world 23 120 20 [place_a, place_b]
     = Inr [place_a\<lparr>p_travel_time_text := Some (lit ''2 mins'')\<rparr>,
            place_b\<lparr>p_travel_time_text := Some (lit ''2 mins'')\<rparr>]"
proof -
  have t: "take 15 [place_a, place_b] = [place_a, place_b]"
    by simp
  have f: "final_loop [lit ''A'' \<mapsto> \<lparr>t_text = lit ''2 mins'', t_minutes = 2\<rparr>,
                       lit ''B'' \<mapsto> \<lparr>t_text = lit ''2 mins'', t_minutes = 2\<rparr>] 20
             [place_a, place_b]
     = Inr [place_a\<lparr>p_travel_time_text := Some (lit ''2 mins'')\<rparr>,
            place_b\<lparr>p_travel_time_text := Some (lit ''2 mins'')\<rparr>]"
    by (simp add: place_a_def place_b_def lit_def)
  show ?thesis
    by (simp only: travel_filter_def Let_def t demo_place_ids sum.case demo_travel_times f)
qed







section \<open>Instances\<close>




theorem zero_latitude_not_found_witness:
  "get_coordinates equator_world (lit ''Pontianak'') = Some (0, 120)
   \<and> find_food equator_world (lit ''beef'') (lit ''Pontianak'') 20 3.5 0 None
       = Inr (msg_cannot_find_location (lit ''Pontianak''), [], [])
   \<and> find_food geocode_down (lit ''beef'') (lit ''Pontianak'') 20 3.5 0 None
       = Inr (msg_cannot_find_location (lit ''Pontianak''), [], [])"
proof -
  have 1: "GOOGLE_API_KEY equator_world \<noteq> [] \<and> lit ''Pontianak'' \<noteq> []
      \<and> geocode equator_world (lit ''Pontianak'')
          = Inr \<lparr>geo_status = OK, geo_results = [(0, 120)]\<rparr>
      \<and> geo_status \<lparr>geo_status = OK, geo_results = [(0, 120)]\<rparr> = OK
      \<and> geo_results \<lparr>geo_status = OK, geo_results = [(0, 120)]\<rparr> = (0, 120) # []"
    by (simp add: equator_world_def demo_world_def lit_def)
  have 2: "GOOGLE_API_KEY geocode_down \<noteq> []
      \<and> get_coordinates geocode_down (lit ''Pontianak'') = None"
    by (simp add: geocode_down_def demo_world_def get_coordinates_def lit_def)
  from 1 2
    zero_latitude_not_found [where w = equator_world and location = "lit ''Pontianak''"
      and res = "\<lparr>geo_status = OK, geo_results = [(0, 120)]\<rparr>" and lng = 120
      and others = "[]" and keyword = "lit ''beef''" and max_travel_time = 20
      and min_rating = "3.5" and min_reviews = 0 and exclude_ids = None]
    zero_latitude_not_found [where w = geocode_down and location = "lit ''Pontianak''"
      and res = "\<lparr>geo_status = OK, geo_results = [(0, 120)]\<rparr>" and lng = 120
      and others = "[]" and keyword = "lit ''beef''" and max_travel_time = 20
      and min_rating = "3.5" and min_reviews = 0 and exclude_ids = None]
  show ?thesis by blast
qed




lemma demo_key: "GOOGLE_API_KEY demo_world \<noteq> []"
  by (simp add: demo_world_def lit_def)

lemma demo_search:
  "textsearch demo_world (lit ''beef'') 23 120
     = Inr \<lparr>sr_status = OK, sr_results = Some [place_a, place_b, place_c]\<rparr>"
  by (simp add: demo_world_def)

lemma demo_few_reviews:
  "filter (is_candidate 3.5 200 excluded) [place_a, place_b, place_c] = []"
  by (simp add: is_candidate_def place_a_def place_b_def place_c_def)

text \<open>
  With the default thresholds: the search finds one place, rated 2, and the exclude list
  holds another place. The place is dropped for its rating, not for being excluded,
  and the message is the already-recommended one.
\<close>

lemma low_rated_already_recommended:
  "find_food low_rated_world (lit ''beef'') (lit ''NCKU'') 20 3.5 0 (Some [lit ''B''])
     = Inr (msg_already_recommended (lit ''beef''), [], [])"
proof -
  have k: "GOOGLE_API_KEY low_rated_world \<noteq> []
      \<and> get_coordinates low_rated_world (lit ''NCKU'') = Some (23, 120)
      \<and> textsearch low_rated_world (lit ''beef'') 23 120
           = Inr \<lparr>sr_status = OK, sr_results = Some [place_c]\<rparr>"
    by (simp add: get_coordinates_def low_rated_world_def demo_world_def)
       (simp add: lit_def)
  have c: "filter (is_candidate 3.5 0 [lit ''B'']) [place_c] = []"
    by (simp add: is_candidate_def place_c_def)
  have "after_search low_rated_world (lit ''beef'') (lit ''NCKU'') 20 3.5 0 [lit ''B'']
          23 120 \<lparr>sr_status = OK, sr_results = Some [place_c]\<rparr>
        = Inr (msg_already_recommended (lit ''beef''), [], [])"
    by (simp only: after_search_def Let_def search_response.simps option.case
        c list.distinct simp_thms if_True if_False length_Cons list.size
        zero_less_Suc)
  then show ?thesis
    using k by (simp add: find_food_after_search)
qed

theorem already_recommended_without_exclusion:
  "textsearch low_rated_world (lit ''beef'') 23 120
     = Inr \<lparr>sr_status = OK, sr_results = Some [place_c]\<rparr>
   \<and> p_place_id place_c = Some (lit ''C'') \<and> lit ''C'' \<notin> set [lit ''B'']
   \<and> find_food low_rated_world (lit ''beef'') (lit ''NCKU'') 20 3.5 0 (Some [lit ''B''])
     = Inr (msg_already_recommended (lit ''beef''), [], [])"
proof -
  have "textsearch low_rated_world (lit ''beef'') 23 120
     = Inr \<lparr>sr_status = OK, sr_results = Some [place_c]\<rparr>"
    by (simp add: low_rated_world_def)
  moreover have "p_place_id place_c = Some (lit ''C'')" by (simp add: place_c_def)
  moreover have "lit ''C'' \<notin> set [lit ''B'']" by (simp add: lit_def)
  ultimately show ?thesis
    using low_rated_already_recommended by blast
qed

theorem no_candidates_message_witness:
  "find_food demo_world (lit ''beef'') (lit ''NCKU'') 20 3.5 200 (Some [lit ''B''])
     = Inr (msg_already_recommended (lit ''beef''), [], [])
   \<and> find_food demo_world (lit ''beef'') (lit ''NCKU'') 20 3.5 200 None
     = Inr (msg_no_places, [], [])
   \<and> find_food demo_world (lit ''beef'') (lit ''NCKU'') 20 3.5 0
        (Some [lit ''A'', lit ''B'', lit ''C''])
     = Inr (msg_already_recommended (lit ''beef''), [], [])"
proof -
  define res where "res = \<lparr>sr_status = OK, sr_results = Some [place_a, place_b, place_c]\<rparr>"
  have h: "GOOGLE_API_KEY demo_world \<noteq> []
      \<and> get_coordinates demo_world (lit ''NCKU'') = Some (23, 120) \<and> (23::rat) \<noteq> 0
      \<and> textsearch demo_world (lit ''beef'') 23 120 = Inr res \<and> sr_status res = OK
      \<and> [place_a, place_b, place_c] = (case sr_results res of None \<Rightarrow> [] | Some ps \<Rightarrow> ps)"
    using demo_key demo_coordinates demo_search by (simp add: res_def)
  have x: "[lit ''B''] = (case Some [lit ''B''] of None \<Rightarrow> [] | Some ids \<Rightarrow> ids)"
    "[] = (case None :: pystr list option of None \<Rightarrow> [] | Some ids \<Rightarrow> ids)"
    "[lit ''A'', lit ''B'', lit ''C'']
       = (case Some [lit ''A'', lit ''B'', lit ''C''] of None \<Rightarrow> [] | Some ids \<Rightarrow> ids)"
    by simp_all
  have c: "[place_a, place_b, place_c] \<noteq> []
      \<and> (\<forall>p\<in>set [place_a, place_b, place_c].
            \<exists>pid. p_place_id p = Some pid \<and> pid \<in> set [lit ''A'', lit ''B'', lit ''C''])"
    by (simp add: place_a_def place_b_def place_c_def)
  have "find_food demo_world (lit ''beef'') (lit ''NCKU'') 20 3.5 200 (Some [lit ''B''])
     = Inr (if [place_a, place_b, place_c] \<noteq> [] \<and> [lit ''B''] \<noteq> []
            then msg_already_recommended (lit ''beef'') else msg_no_places, [], [])"
    using h x(1) demo_few_reviews [of "[lit ''B'']"]
      no_candidates_message [where w = demo_world and location = "lit ''NCKU''"
        and lat = 23 and lng = 120 and keyword = "lit ''beef''" and res = res
        and results = "[place_a, place_b, place_c]" and excluded = "[lit ''B'']"
        and exclude_ids = "Some [lit ''B'']" and min_rating = "3.5" and min_reviews = 200
        and max_travel_time = 20]
    by blast
  then have 1: "find_food demo_world (lit ''beef'') (lit ''NCKU'') 20 3.5 200
        (Some [lit ''B''])
     = Inr (msg_already_recommended (lit ''beef''), [], [])"
    by simp
  have "find_food demo_world (lit ''beef'') (lit ''NCKU'') 20 3.5 200 None
     = Inr (if [place_a, place_b, place_c] \<noteq> [] \<and> ([] :: pystr list) \<noteq> []
            then msg_already_recommended (lit ''beef'') else msg_no_places, [], [])"
    using h x(2) demo_few_reviews [of "[]"]
      no_candidates_message [where w = demo_world and location = "lit ''NCKU''"
        and lat = 23 and lng = 120 and keyword = "lit ''beef''" and res = res
        and results = "[place_a, place_b, place_c]" and excluded = "[]"
        and exclude_ids = None and min_rating = "3.5" and min_reviews = 200
        and max_travel_time = 20]
    by blast
  then have 2: "find_food demo_world (lit ''beef'') (lit ''NCKU'') 20 3.5 200 None
     = Inr (msg_no_places, [], [])"
    by simp
  have 3: "find_food demo_world (lit ''beef'') (lit ''NCKU'') 20 3.5 0
        (Some [lit ''A'', lit ''B'', lit ''C''])
     = Inr (msg_already_recommended (lit ''beef''), [], [])"
    using h x(3) c
      no_candidates_message [where w = demo_world and location = "lit ''NCKU''"
        and lat = 23 and lng = 120 and keyword = "lit ''beef''" and res = res
        and results = "[place_a, place_b, place_c]"
        and excluded = "[lit ''A'', lit ''B'', lit ''C'']"
        and exclude_ids = "Some [lit ''A'', lit ''B'', lit ''C'']" and min_rating = "3.5"
        and min_reviews = 0 and max_travel_time = 20]
    by blast
  from 1 2 3 show ?thesis by blast
qed

theorem sample_size_witness:
  "\<exists>ids rs.
     find_food demo_world (lit ''beef'') (lit ''NCKU'') 20 3.5 0 None
       = Inr (prompt demo_world (lit ''beef'') 20 (lit ''NCKU'') rs, ids, rs)
     \<and> length ids = 2 \<and> length rs = 2"
proof -
  define res where "res = \<lparr>sr_status = OK, sr_results = Some [place_a, place_b, place_c]\<rparr>"
  define final_list where
    "final_list = [place_a\<lparr>p_travel_time_text := Some (lit ''2 mins'')\<rparr>,
                   place_b\<lparr>p_travel_time_text := Some (lit ''2 mins'')\<rparr>]"
  have h: "GOOGLE_API_KEY demo_world \<noteq> []
      \<and> get_coordinates demo_world (lit ''NCKU'') = Some (23, 120) \<and> (23::rat) \<noteq> 0
      \<and> textsearch demo_world (lit ''beef'') 23 120 = Inr res \<and> sr_status res = OK
      \<and> [place_a, place_b, place_c] = (case sr_results res of None \<Rightarrow> [] | Some ps \<Rightarrow> ps)
      \<and> [] = (case None :: pystr list option of None \<Rightarrow> [] | Some ids \<Rightarrow> ids)"
    using demo_key demo_coordinates demo_search by (simp add: res_def)
  have t: "travel_filter demo_world 23 120 20
             (filter (is_candidate 3.5 0 []) [place_a, place_b, place_c]) = Inr final_list
      \<and> final_list \<noteq> []"
    by (simp only: demo_candidates demo_final_list final_list_def list.distinct simp_thms)
  have l: "min 3 (length final_list) = 2"
    by (simp add: final_list_def)
  from h t
    sample_size [where w = demo_world and location = "lit ''NCKU''"
        and lat = 23 and lng = 120 and keyword = "lit ''beef''" and res = res
        and results = "[place_a, place_b, place_c]" and excluded = "[]"
        and exclude_ids = None and min_rating = "3.5" and min_reviews = 0
        and max_travel_time = 20 and final_list = final_list]
  have "\<exists>ids rs.
          find_food demo_world (lit ''beef'') (lit ''NCKU'') 20 3.5 0 None
            = Inr (prompt demo_world (lit ''beef'') 20 (lit ''NCKU'') rs, ids, rs)
          \<and> length ids = min 3 (length final_list)
          \<and> length rs = min 3 (length final_list)
          \<and> length rs \<le> 3 \<and> length rs \<le> length final_list"
    by blast
  then show ?thesis
    unfolding l by blast
qed








end
